theory Spec2Isabelle
  imports Main "HOL-Library.Sublist" "HOL-Library.Word"
begin

section \<open>Python strings, as far as the program uses them\<close>

text \<open>
  A Python \<open>str\<close> is modelled as a \<open>string\<close> whose characters are the code points
  0..255 (the range that the configured encoding, ISO-8859-1, can transmit). The
  predicates below are Python's \<open>str.isspace\<close>, \<open>str.isdecimal\<close>, \<open>str.isdigit\<close> and
  \<open>str.lower\<close> on that range: twelve code points are whitespace, the superscripts
  one, two and three are digits without being decimal digits, and lowering moves
  A..Z and the accented capitals 192..222 (except the multiplication sign 215) up by 32.
\<close>

definition code :: "char \<Rightarrow> nat" where
  "code c = of_char c"

definition isspace :: "char \<Rightarrow> bool" where
  "isspace c = ((9 \<le> code c \<and> code c \<le> 13) \<or> (28 \<le> code c \<and> code c \<le> 32)
                 \<or> code c = 133 \<or> code c = 160)"

definition isdecimal :: "char \<Rightarrow> bool" where
  "isdecimal c = (48 \<le> code c \<and> code c \<le> 57)"

definition isdigit_char :: "char \<Rightarrow> bool" where
  "isdigit_char c = (isdecimal c \<or> code c = 178 \<or> code c = 179 \<or> code c = 185)"

definition lower_char :: "char \<Rightarrow> char" where
  "lower_char c =
     (if (65 \<le> code c \<and> code c \<le> 90) \<or> (192 \<le> code c \<and> code c \<le> 222 \<and> code c \<noteq> 215)
      then char_of (code c + 32) else c)"

text \<open>\<open>s.lower()\<close>.\<close>

definition lower :: "string \<Rightarrow> string" where
  "lower s = map lower_char s"

text \<open>\<open>s.strip()\<close>: leading and trailing whitespace removed.\<close>

definition strip :: "string \<Rightarrow> string" where
  "strip s = rev (dropWhile isspace (rev (dropWhile isspace s)))"

text \<open>\<open>s.isdigit()\<close>: at least one character, and every character a digit.\<close>

definition isdigit :: "string \<Rightarrow> bool" where
  "isdigit s = (s \<noteq> [] \<and> list_all isdigit_char s)"

text \<open>\<open>s.startswith("-")\<close> and the slice \<open>s[1:]\<close>.\<close>

definition startswith_minus :: "string \<Rightarrow> bool" where
  "startswith_minus s = (case s of [] \<Rightarrow> False | c # _ \<Rightarrow> c = CHR ''-'')"

definition slice_from_1 :: "string \<Rightarrow> string" where
  "slice_from_1 s = drop 1 s"

text \<open>\<open>needle in hay\<close> on strings: \<open>needle\<close> occurs as a contiguous substring.\<close>

fun contains :: "string \<Rightarrow> string \<Rightarrow> bool" where
  "contains needle [] = (needle = [])"
| "contains needle (c # cs) = (prefix needle (c # cs) \<or> contains needle cs)"

subsection \<open>Integers and their decimal text\<close>

text \<open>
  \<open>str(v)\<close> for an integer: the decimal digits, most significant first, without
  leading zeros, after a \<open>-\<close> when \<open>v\<close> is negative. Python's integers are unbounded
  and so is \<open>int\<close>; the interpreter's optional cap on the number of digits converted
  is not part of the model.
\<close>

definition digit_char :: "nat \<Rightarrow> char" where
  "digit_char d = char_of (48 + d)"

fun str_nat :: "nat \<Rightarrow> string" where
  "str_nat n = (if n < 10 then [digit_char n] else str_nat (n div 10) @ [digit_char (n mod 10)])"

declare str_nat.simps [simp del]

definition str_int :: "int \<Rightarrow> string" where
  "str_int v = (if v < 0 then CHR ''-'' # str_nat (nat (- v)) else str_nat (nat v))"

text \<open>
  \<open>int(s)\<close> on the strings that reach it in \<open>validate\<close>: an optional leading \<open>-\<close>
  followed by characters that passed \<open>isdigit\<close>. The conversion succeeds when every
  one of them is a decimal digit and raises \<open>ValueError\<close> (here \<open>None\<close>) otherwise,
  as it does on a superscript digit.
\<close>

definition digits_value :: "string \<Rightarrow> nat" where
  "digits_value s = foldl (\<lambda>acc c. 10 * acc + (code c - 48)) 0 s"

definition py_int :: "string \<Rightarrow> int option" where
  "py_int s =
     (let body = (if startswith_minus s then slice_from_1 s else s) in
      if body \<noteq> [] \<and> list_all isdecimal body
      then Some (if startswith_minus s then - int (digits_value body) else int (digits_value body))
      else None)"

section \<open>config.py\<close>

definition BAUD_RATE :: int where "BAUD_RATE = 57600"
definition TIMEOUT :: int where "TIMEOUT = 2"
definition DATA_BITS :: int where "DATA_BITS = 8"
definition STOP_BITS :: int where "STOP_BITS = 1"
definition MIN_VALUE :: int where "MIN_VALUE = 0"
definition MAX_VALUE :: int where "MAX_VALUE = 100"

section \<open>validator.py\<close>

text \<open>
  \<open>Validator.validate\<close>, branch by branch: the empty test, the digit test with its
  special case for a leading minus sign, the conversion guarded by
  \<open>except ValueError\<close>, and the two range tests.
\<close>

definition validate :: "string \<Rightarrow> bool \<times> string" where
  "validate input_str =
     (if input_str = [] \<or> strip input_str = [] then (True, [])
      else
        let stripped = strip input_str in
        if startswith_minus stripped \<and> \<not> isdigit (slice_from_1 stripped)
          then (False, ''Invalid: Numbers only'')
        else if \<not> startswith_minus stripped \<and> \<not> isdigit stripped
          then (False, ''Invalid: Numbers only'')
        else
          case py_int stripped of
            None \<Rightarrow> (False, ''Invalid: Numbers only'')
          | Some v \<Rightarrow>
              if v < MIN_VALUE then (False, ''Invalid: Min value is '' @ str_int MIN_VALUE)
              else if v > MAX_VALUE then (False, ''Invalid: Max value is '' @ str_int MAX_VALUE)
              else (True, []))"

text \<open>\<open>Validator.is_valid_char\<close>, on a one-character string.\<close>

definition is_valid_char :: "char \<Rightarrow> bool" where
  "is_valid_char c = isdigit [c]"

section \<open>serial\_handler.py\<close>

datatype ConnectionStatus = DISCONNECTED | CONNECTING | CONNECTED | ERROR

text \<open>
  The \<open>serial.Serial\<close> object, as far as the handler looks at it: its \<open>is_open\<close>
  flag. The library itself is outside the repository, so what its calls do is an
  input of the model: an attempt to open the port either yields an object or raises
  (\<open>SerialException\<close>, or some other exception, each with its text), and a write
  either reports a number of bytes or raises. \<open>close\<close> is taken to return normally.
\<close>

record Serial =
  is_open :: bool

datatype open_outcome =
    Opened Serial
  | OpenSerialException string
  | OpenException string

datatype write_outcome =
    Written int
  | WriteSerialException string
  | WriteException string

type_synonym bytes = "8 word list"

datatype parity = PARITY_NONE

text \<open>
  What the handler does to the outside, in the order it does it: the calls of the
  status callback and the calls into the serial library with their arguments. The
  callback is an observer: it is handed the status and the message and returns.
\<close>

datatype event =
    StatusCallback ConnectionStatus string
  | SerialOpen string int int parity int int
  | SerialClose
  | SerialWrite bytes

text \<open>
  The fields of \<open>SerialHandler\<close>. \<open>status_callback\<close> tells whether a callback is
  registered (\<open>self._status_callback\<close> is not \<open>None\<close>).
\<close>

record SerialHandler =
  port :: string
  baud_rate :: int
  serial :: "Serial option"
  status :: ConnectionStatus
  error_message :: string
  status_callback :: bool

text \<open>\<open>__init__\<close>.\<close>

definition init :: "string \<Rightarrow> int \<Rightarrow> bool \<Rightarrow> SerialHandler" where
  "init p b cb =
     \<lparr>port = p, baud_rate = b, serial = None, status = DISCONNECTED,
      error_message = [], status_callback = cb\<rparr>"

text \<open>\<open>_update_status\<close>: both fields are set, then the callback, if any, is told.\<close>

definition update_status ::
  "SerialHandler \<Rightarrow> ConnectionStatus \<Rightarrow> string \<Rightarrow> SerialHandler \<times> event list" where
  "update_status h st message =
     (h\<lparr>status := st, error_message := message\<rparr>,
      if status_callback h then [StatusCallback st message] else [])"

text \<open>\<open>_get_error_message\<close>, on the text \<open>str(exception)\<close>.\<close>

definition get_error_message :: "SerialHandler \<Rightarrow> string \<Rightarrow> string" where
  "get_error_message h exception =
     (let error_str = lower exception in
      if contains ''no such file'' error_str \<or> contains ''not found'' error_str
        then ''Serial port '' @ port h @ '' not found''
      else if contains ''permission denied'' error_str
        then ''Permission denied. Check port access rights''
      else if contains ''access is denied'' error_str
        then ''Port is in use by another application''
      else exception)"

text \<open>
  \<open>connect\<close>: the result, the handler afterwards, and the events. The three
  outcomes of the attempt to open are the body of \<open>try\<close> and the two handlers;
  the second one receives every exception that is not the library's own. The
  callback returns normally, so the notification inside \<open>try\<close> raises nothing.
\<close>

definition connect :: "SerialHandler \<Rightarrow> open_outcome \<Rightarrow> bool \<times> SerialHandler \<times> event list" where
  "connect h outcome =
     (let (h1, ev1) = update_status h CONNECTING [];
          ev_open = [SerialOpen (port h1) (baud_rate h1) DATA_BITS PARITY_NONE STOP_BITS TIMEOUT]
      in case outcome of
           Opened s \<Rightarrow>
             let h2 = h1\<lparr>serial := Some s\<rparr>;
                 (h3, ev3) = update_status h2 CONNECTED []
             in (True, h3, ev1 @ ev_open @ ev3)
         | OpenSerialException e \<Rightarrow>
             let h2 = h1\<lparr>serial := None\<rparr>;
                 error_msg = get_error_message h2 e;
                 (h3, ev3) = update_status h2 ERROR error_msg
             in (False, h3, ev1 @ ev_open @ ev3)
         | OpenException e \<Rightarrow>
             let h2 = h1\<lparr>serial := None\<rparr>;
                 (h3, ev3) = update_status h2 ERROR e
             in (False, h3, ev1 @ ev_open @ ev3))"

text \<open>\<open>disconnect\<close>: an open port is closed; the reference is dropped in any case.\<close>

definition disconnect :: "SerialHandler \<Rightarrow> SerialHandler \<times> event list" where
  "disconnect h =
     (h\<lparr>serial := None\<rparr>,
      case serial h of
        None \<Rightarrow> []
      | Some s \<Rightarrow> if is_open s then [SerialClose] else [])"

text \<open>\<open>retry\<close>.\<close>

definition retry :: "SerialHandler \<Rightarrow> open_outcome \<Rightarrow> bool \<times> SerialHandler \<times> event list" where
  "retry h outcome =
     (let (h1, ev1) = disconnect h;
          (r, h2, ev2) = connect h1 outcome
      in (r, h2, ev1 @ ev2))"

text \<open>\<open>is_connected\<close>.\<close>

definition is_connected :: "SerialHandler \<Rightarrow> bool" where
  "is_connected h = (case serial h of None \<Rightarrow> False | Some s \<Rightarrow> is_open s)"

text \<open>\<open>str.encode("iso-8859-1")\<close>: one byte for each code point.\<close>

definition encode :: "string \<Rightarrow> bytes" where
  "encode s = map (\<lambda>c. of_nat (code c)) s"

text \<open>
  \<open>send\<close>: the returned pair, the handler afterwards, and the events. No field of
  the handler is assigned anywhere in the method.
\<close>

definition send ::
  "SerialHandler \<Rightarrow> int \<Rightarrow> write_outcome \<Rightarrow> (bool \<times> string) \<times> SerialHandler \<times> event list" where
  "send h v outcome =
     (if \<not> is_connected h then ((False, ''Error: Not connected to serial port''), h, [])
      else
        let ascii_string = str_int v;
            encoded_data = encode ascii_string;
            ev = [SerialWrite encoded_data]
        in case outcome of
             Written bytes_written \<Rightarrow>
               if bytes_written = int (length encoded_data)
               then ((True, ''Sent: '' @ str_int v), h, ev)
               else ((False, ''Error: Incomplete transmission''), h, ev)
           | WriteSerialException e \<Rightarrow> ((False, ''Error: '' @ e), h, ev)
           | WriteException e \<Rightarrow> ((False, ''Error: '' @ e), h, ev))"

subsection \<open>Sequences of calls\<close>

datatype operation =
    Connect open_outcome
  | Disconnect
  | Retry open_outcome
  | Send int write_outcome

fun step :: "SerialHandler \<Rightarrow> operation \<Rightarrow> SerialHandler" where
  "step h (Connect outcome) = fst (snd (connect h outcome))"
| "step h Disconnect = fst (disconnect h)"
| "step h (Retry outcome) = fst (snd (retry h outcome))"
| "step h (Send v outcome) = fst (snd (send h v outcome))"

definition run :: "SerialHandler \<Rightarrow> operation list \<Rightarrow> SerialHandler" where
  "run h ops = foldl step h ops"

section \<open>Notions used in the statements\<close>

text \<open>
  A text contains a needle without regard to case when some contiguous part of it
  becomes the needle once lowered. This is the reading of the specification; the
  program computes it as \<open>contains needle (lower text)\<close>.
\<close>

definition contains_ci :: "string \<Rightarrow> string \<Rightarrow> bool" where
  "contains_ci needle text =
     (\<exists>before middle after. text = before @ middle @ after \<and> lower middle = needle)"

text \<open>The calls of the status callback among the events.\<close>

fun is_callback :: "event \<Rightarrow> bool" where
  "is_callback (StatusCallback st message) = True"
| "is_callback (SerialOpen p b d par sb t) = False"
| "is_callback SerialClose = False"
| "is_callback (SerialWrite data) = False"

text \<open>The text of the exception, when the operation is an attempt to open that fails.\<close>

fun open_failure_text :: "operation \<Rightarrow> string option" where
  "open_failure_text (Connect (OpenSerialException e)) = Some e"
| "open_failure_text (Connect (OpenException e)) = Some e"
| "open_failure_text (Retry (OpenSerialException e)) = Some e"
| "open_failure_text (Retry (OpenException e)) = Some e"
| "open_failure_text other = None"

definition failure_texts_nonempty :: "operation list \<Rightarrow> bool" where
  "failure_texts_nonempty ops = list_all (\<lambda>op. open_failure_text op \<noteq> Some []) ops"

text \<open>The port object, when the operation is an attempt to open that succeeds.\<close>

fun opened_port :: "operation \<Rightarrow> Serial option" where
  "opened_port (Connect (Opened s)) = Some s"
| "opened_port (Retry (Opened s)) = Some s"
| "opened_port other = None"

text \<open>
  Sequences in which \<open>disconnect\<close> is never called on its own and every port that
  the library hands out is open, as a freshly constructed \<open>serial.Serial\<close> is.
\<close>

definition reconnecting_only :: "operation list \<Rightarrow> bool" where
  "reconnecting_only ops =
     list_all (\<lambda>op. op \<noteq> Disconnect \<and> (case opened_port op of None \<Rightarrow> True | Some s \<Rightarrow> is_open s)) ops"

text \<open>
  A string has content that is not a decimal digit, a single leading \<open>-\<close> set aside.
\<close>

definition non_digit_content :: "string \<Rightarrow> bool" where
  "non_digit_content s =
     list_ex (\<lambda>c. \<not> isdecimal c) (if startswith_minus s then slice_from_1 s else s)"

section \<open>Characters, decimal text and encoding\<close>
lemma code_less_256: "code c < 256"
  unfolding code_def using of_char_mod_256 [of c, where ?'a = nat]
  by (metis mod_less_divisor zero_less_numeral)

lemma length_encode: "length (encode s) = length s"
  by (simp add: encode_def)

lemma decode_encode: "map (\<lambda>b. char_of (unat b)) (encode s) = s"
proof -
  have "char_of (unat (of_nat (code c) :: 8 word)) = c" for c
    by (simp add: code_def unat_of_nat)
  then show ?thesis by (simp add: encode_def comp_def)
qed

lemma send_state: "fst (snd (send h v w)) = h"
  by (simp add: send_def Let_def split: write_outcome.splits)

lemma code_digit_char: "d < 10 \<Longrightarrow> code (digit_char d) = 48 + d"
  by (simp add: code_def digit_char_def)

lemma code_minus: "code CHR ''-'' = 45"
  by (simp add: code_def)

lemma isdecimal_digit_char: "d < 10 \<Longrightarrow> isdecimal (digit_char d)"
  by (simp add: isdecimal_def code_digit_char)

lemma isdecimal_not_space: "isdecimal c \<Longrightarrow> \<not> isspace c"
  by (auto simp add: isdecimal_def isspace_def)

lemma isdecimal_not_minus: "isdecimal c \<Longrightarrow> c \<noteq> CHR ''-''"
  by (auto simp add: isdecimal_def code_minus)

lemma minus_not_space: "\<not> isspace CHR ''-''"
  by (simp add: isspace_def code_minus)

lemma str_nat_nonempty: "str_nat n \<noteq> []"
  by (subst str_nat.simps) simp

lemma str_nat_decimal: "list_all isdecimal (str_nat n)"
proof (induction n rule: str_nat.induct)
  case (1 n)
  show ?case
  proof (cases "n < 10")
    case True
    then show ?thesis by (subst str_nat.simps) (simp add: isdecimal_digit_char)
  next
    case False
    with 1 show ?thesis by (subst str_nat.simps) (simp add: isdecimal_digit_char)
  qed
qed

lemma digits_value_snoc: "digits_value (s @ [c]) = 10 * digits_value s + (code c - 48)"
  by (simp add: digits_value_def)

lemma digits_value_str_nat: "digits_value (str_nat n) = n"
proof (induction n rule: str_nat.induct)
  case (1 n)
  show ?case
  proof (cases "n < 10")
    case True
    then show ?thesis
      by (subst str_nat.simps) (simp add: digits_value_def code_digit_char)
  next
    case False
    with 1 have "digits_value (str_nat (n div 10)) = n div 10" by simp
    with False show ?thesis
      by (subst str_nat.simps) (simp add: digits_value_snoc code_digit_char)
  qed
qed

lemma strip_id:
  assumes "s \<noteq> []" "\<not> isspace (hd s)" "\<not> isspace (last s)"
  shows "strip s = s"
proof -
  from assms have 1: "dropWhile isspace s = s" by (cases s) simp_all
  from assms have "dropWhile isspace (rev s) = rev s" by (cases "rev s") (simp_all add: hd_rev)
  with 1 show ?thesis by (simp add: strip_def)
qed

lemma strip_str_int: "strip (str_int v) = str_int v"
proof -
  have ne: "str_nat n \<noteq> []" for n by (rule str_nat_nonempty)
  have allns: "c \<in> set (str_nat n) \<Longrightarrow> \<not> isspace c" for c n
    using str_nat_decimal [of n] by (auto simp add: list_all_iff isdecimal_not_space)
  have h: "\<not> isspace (hd (str_nat n))" for n using allns [of _ n] ne [of n] by simp
  have l: "\<not> isspace (last (str_nat n))" for n using allns [of _ n] ne [of n] by simp
  show ?thesis
    by (rule strip_id) (simp_all add: str_int_def ne h l minus_not_space)
qed

lemma startswith_minus_str_nat: "\<not> startswith_minus (str_nat n)"
  using str_nat_decimal [of n] str_nat_nonempty [of n]
  by (cases "str_nat n") (auto simp add: startswith_minus_def isdecimal_not_minus)

lemma py_int_str_int: "py_int (str_int v) = Some v"
  by (simp add: py_int_def str_int_def startswith_minus_str_nat slice_from_1_def
      str_nat_nonempty str_nat_decimal digits_value_str_nat)
    (simp add: startswith_minus_def)

lemma isdigit_str_nat: "isdigit (str_nat n)"
  using str_nat_decimal [of n]
  by (auto simp add: isdigit_def str_nat_nonempty list_all_iff isdigit_char_def)

lemma str_MIN: "str_int MIN_VALUE = ''0''"
  by code_simp

lemma str_MAX: "str_int MAX_VALUE = ''100''"
  by code_simp

lemma validate_str_int:
  "validate (str_int v) =
     (if v < 0 then (False, ''Invalid: Min value is 0'')
      else if v > 100 then (False, ''Invalid: Max value is 100'')
      else (True, []))"
proof -
  have ne: "str_int v \<noteq> []" by (simp add: str_int_def str_nat_nonempty)
  have sw: "startswith_minus (str_int v) = (v < 0)"
    by (simp add: str_int_def startswith_minus_str_nat) (simp add: startswith_minus_def)
  have dg: "v < 0 \<Longrightarrow> isdigit (slice_from_1 (str_int v))"
    by (simp add: str_int_def slice_from_1_def isdigit_str_nat)
  have dg2: "\<not> v < 0 \<Longrightarrow> isdigit (str_int v)"
    by (simp add: str_int_def isdigit_str_nat)
  show ?thesis
    using ne sw dg dg2
    by (simp add: validate_def strip_str_int py_int_str_int Let_def str_MIN str_MAX)
      (simp add: MIN_VALUE_def MAX_VALUE_def)
qed

lemma validate_whitespace: "list_all isspace s \<Longrightarrow> validate s = (True, [])"
proof -
  assume "list_all isspace s"
  then have dw: "dropWhile isspace s = []" by (induction s) simp_all
  have "strip s = []" unfolding strip_def dw by simp
  then show ?thesis by (simp add: validate_def)
qed

section \<open>Facts about the handler's methods\<close>

lemma contains_sublist: "contains needle hay = sublist needle hay"
  by (induction hay) (simp_all add: sublist_Cons_right)

lemma contains_lower_ci: "contains needle (lower text) = contains_ci needle text"
proof
  assume "contains needle (lower text)"
  then obtain ps ss where eq: "map lower_char text = ps @ needle @ ss"
    unfolding contains_sublist sublist_def lower_def by blast
  define before where "before = take (length ps) text"
  define middle where "middle = take (length needle) (drop (length ps) text)"
  define after where "after = drop (length needle) (drop (length ps) text)"
  have split: "text = before @ middle @ after"
    unfolding before_def middle_def after_def by (simp only: append_take_drop_id)
  have "map lower_char middle = take (length needle) (drop (length ps) (map lower_char text))"
    unfolding middle_def by (simp only: take_map drop_map)
  also have "\<dots> = needle"
    unfolding eq by simp
  finally have "lower middle = needle"
    unfolding lower_def .
  with split show "contains_ci needle text"
    unfolding contains_ci_def by blast
next
  assume "contains_ci needle text"
  then obtain before middle after
    where "text = before @ middle @ after" and "lower middle = needle"
    unfolding contains_ci_def by blast
  then have "lower text = lower before @ needle @ lower after"
    by (simp add: lower_def)
  then show "contains needle (lower text)"
    unfolding contains_sublist sublist_def by blast
qed

lemma get_error_message_nonempty: "e \<noteq> [] \<Longrightarrow> get_error_message h e \<noteq> []"
  by (simp add: get_error_message_def Let_def)

lemma get_error_message_port: "port h' = port h \<Longrightarrow> get_error_message h' e = get_error_message h e"
  by (simp add: get_error_message_def Let_def)

lemma connect_Opened:
  "connect h (Opened s) =
     (True, h\<lparr>status := CONNECTED, error_message := [], serial := Some s\<rparr>,
      (if status_callback h then [StatusCallback CONNECTING []] else []) @
      [SerialOpen (port h) (baud_rate h) DATA_BITS PARITY_NONE STOP_BITS TIMEOUT] @
      (if status_callback h then [StatusCallback CONNECTED []] else []))"
  by (simp add: connect_def update_status_def)

section \<open>send\<close>

text \<open>
  Claim C2. On a connected handler, \<open>send v\<close> makes one call of \<open>write\<close>, whose
  argument is the text \<open>str v\<close> encoded with one byte for each character (decoding the
  bytes gives the text back). When the number of bytes reported equals the length of
  the data, the result is success with the message \<open>Sent: v\<close>; when it is smaller, the
  result is failure with the message \<open>Error: Incomplete transmission\<close>.
\<close>

theorem send_writes_decimal_text:
  assumes "is_connected h"
  shows "snd (snd (send h v outcome)) = [SerialWrite (encode (str_int v))]
    \<and> length (encode (str_int v)) = length (str_int v)
    \<and> map (\<lambda>b. char_of (unat b)) (encode (str_int v)) = str_int v
    \<and> (outcome = Written (int (length (encode (str_int v)))) \<longrightarrow>
          fst (send h v outcome) = (True, ''Sent: '' @ str_int v))
    \<and> (\<forall>n. outcome = Written n \<and> n < int (length (encode (str_int v))) \<longrightarrow>
          fst (send h v outcome) = (False, ''Error: Incomplete transmission''))"
  using assms
  by (auto simp add: send_def Let_def length_encode decode_encode split: write_outcome.splits)

theorem send_writes_decimal_text_witness:
  "is_connected (fst (snd (connect (init ''COM3'' 57600 True) (Opened \<lparr>is_open = True\<rparr>))))
   \<and> send (fst (snd (connect (init ''COM3'' 57600 True) (Opened \<lparr>is_open = True\<rparr>)))) 50 (Written 2)
       = ((True, ''Sent: 50''),
          fst (snd (connect (init ''COM3'' 57600 True) (Opened \<lparr>is_open = True\<rparr>))),
          [SerialWrite [0x35, 0x30]])
   \<and> fst (send (fst (snd (connect (init ''COM3'' 57600 True) (Opened \<lparr>is_open = True\<rparr>)))) 50 (Written 1))
       = (False, ''Error: Incomplete transmission'')"
proof -
  let ?h = "fst (snd (connect (init ''COM3'' 57600 True) (Opened \<lparr>is_open = True\<rparr>)))"
  have c: "is_connected ?h"
    by (simp add: connect_Opened is_connected_def)
  have s: "str_int 50 = ''50''" by code_simp
  have e: "encode ''50'' = [0x35, 0x30]" by code_simp
  have st: "fst (snd (send ?h 50 (Written 2))) = ?h" by (rule send_state)
  from send_writes_decimal_text [OF c, of 50 "Written 2"]
  have "snd (snd (send ?h 50 (Written 2))) = [SerialWrite [0x35, 0x30]]"
    and "fst (send ?h 50 (Written 2)) = (True, ''Sent: 50'')"
    by (simp_all add: s e)
  moreover from send_writes_decimal_text [OF c, of 50 "Written 1"]
  have "fst (send ?h 50 (Written 1)) = (False, ''Error: Incomplete transmission'')"
    by (simp add: s e)
  ultimately show ?thesis using c st
    by (simp add: prod_eq_iff)
qed

text \<open>
  Claim C3. On a handler that is not connected, \<open>send\<close> returns failure with the
  message \<open>Error: Not connected to serial port\<close> and calls nothing. Whatever the
  write does, \<open>send\<close> returns the handler as it was: status, error message and port
  object are those before the call, so a status \<open>CONNECTED\<close> stays \<open>CONNECTED\<close>.
\<close>

theorem send_leaves_handler_unchanged:
  "(\<not> is_connected h \<longrightarrow>
       send h v outcome = ((False, ''Error: Not connected to serial port''), h, [])
       \<and> contains ''not connected'' (lower (snd (fst (send h v outcome)))))
   \<and> fst (snd (send h v outcome)) = h
   \<and> status (fst (snd (send h v outcome))) = status h
   \<and> error_message (fst (snd (send h v outcome))) = error_message h
   \<and> serial (fst (snd (send h v outcome))) = serial h
   \<and> (status h = CONNECTED \<longrightarrow> status (fst (snd (send h v outcome))) = CONNECTED)"
proof -
  have "contains ''not connected'' (lower ''Error: Not connected to serial port'')"
    by code_simp
  then show ?thesis
    by (simp add: send_def Let_def split: write_outcome.splits)
qed

theorem send_leaves_handler_unchanged_witness:
  "\<not> is_connected (init ''COM3'' 57600 True)
   \<and> send (init ''COM3'' 57600 True) 50 (Written 2)
       = ((False, ''Error: Not connected to serial port''), init ''COM3'' 57600 True, [])
   \<and> status (init ''COM3'' 57600 True
        \<lparr>serial := Some \<lparr>is_open = True\<rparr>, status := CONNECTED\<rparr>) = CONNECTED
   \<and> status (fst (snd (send (init ''COM3'' 57600 True
        \<lparr>serial := Some \<lparr>is_open = True\<rparr>, status := CONNECTED\<rparr>) 50 (Written 1)))) = CONNECTED"
  using send_leaves_handler_unchanged [of "init ''COM3'' 57600 True" 50 "Written 2"]
    send_leaves_handler_unchanged [of "init ''COM3'' 57600 True
        \<lparr>serial := Some \<lparr>is_open = True\<rparr>, status := CONNECTED\<rparr>" 50 "Written 1"]
  by (simp add: is_connected_def init_def)

text \<open>
  Claim C10. \<open>send\<close> tests neither range nor sign. For every integer \<open>v\<close>, a
  connected handler whose write reports the full length sends the decimal text of
  \<open>v\<close> and returns success with \<open>Sent: v\<close>. The text reads back as \<open>v\<close>; for a
  negative \<open>v\<close> it is a \<open>-\<close> followed by the text of \<open>- v\<close>, and otherwise it
  consists of decimal digits.
\<close>

theorem send_unchecked_range:
  assumes "is_connected h"
  shows "send h v (Written (int (length (str_int v))))
           = ((True, ''Sent: '' @ str_int v), h, [SerialWrite (encode (str_int v))])
    \<and> py_int (str_int v) = Some v
    \<and> (v < 0 \<longrightarrow> str_int v = CHR ''-'' # str_int (- v))
    \<and> (0 \<le> v \<longrightarrow> list_all isdecimal (str_int v))"
proof -
  from assms have "send h v (Written (int (length (str_int v))))
      = ((True, ''Sent: '' @ str_int v), h, [SerialWrite (encode (str_int v))])"
    by (simp add: send_def Let_def length_encode)
  moreover have "v < 0 \<longrightarrow> str_int v = CHR ''-'' # str_int (- v)"
    by (simp add: str_int_def)
  moreover have "0 \<le> v \<longrightarrow> list_all isdecimal (str_int v)"
    by (simp add: str_int_def str_nat_decimal)
  ultimately show ?thesis
    by (simp add: py_int_str_int)
qed

theorem send_unchecked_range_witness:
  "is_connected (init ''COM3'' 57600 False \<lparr>serial := Some \<lparr>is_open = True\<rparr>\<rparr>)
   \<and> send (init ''COM3'' 57600 False \<lparr>serial := Some \<lparr>is_open = True\<rparr>\<rparr>) (- 7) (Written 2)
       = ((True, ''Sent: -7''), init ''COM3'' 57600 False \<lparr>serial := Some \<lparr>is_open = True\<rparr>\<rparr>,
          [SerialWrite [0x2D, 0x37]])
   \<and> send (init ''COM3'' 57600 False \<lparr>serial := Some \<lparr>is_open = True\<rparr>\<rparr>) 250 (Written 3)
       = ((True, ''Sent: 250''), init ''COM3'' 57600 False \<lparr>serial := Some \<lparr>is_open = True\<rparr>\<rparr>,
          [SerialWrite [0x32, 0x35, 0x30]])"
proof -
  let ?h = "init ''COM3'' 57600 False \<lparr>serial := Some \<lparr>is_open = True\<rparr>\<rparr>"
  have c: "is_connected ?h" by (simp add: is_connected_def)
  have s: "str_int (- 7) = ''-7''" "str_int 250 = ''250''" by code_simp+
  have e: "encode ''-7'' = [0x2D, 0x37]" "encode ''250'' = [0x32, 0x35, 0x30]" by code_simp+
  from send_unchecked_range [OF c, of "- 7"] send_unchecked_range [OF c, of 250] c
  show ?thesis by (simp add: s e)
qed

section \<open>validate\<close>

text \<open>
  Claim C6. For every integer \<open>v\<close>, \<open>validate (str v)\<close> is valid with an empty
  message exactly when \<open>0 \<le> v \<le> 100\<close>; below the range the message names the
  minimum and above it the maximum. A string of whitespace only, the empty string
  included, is valid with an empty message.
\<close>

theorem validate_decimal_text:
  "(validate (str_int v) = (True, []) \<longleftrightarrow> 0 \<le> v \<and> v \<le> 100)
   \<and> (v < 0 \<longrightarrow> validate (str_int v) = (False, ''Invalid: Min value is 0''))
   \<and> (v > 100 \<longrightarrow> validate (str_int v) = (False, ''Invalid: Max value is 100''))
   \<and> (list_all isspace s \<longrightarrow> validate s = (True, []))"
  by (simp add: validate_str_int validate_whitespace)

theorem validate_decimal_text_witness:
  "validate ''0'' = (True, []) \<and> validate ''100'' = (True, [])
   \<and> validate ''-1'' = (False, ''Invalid: Min value is 0'')
   \<and> validate ''101'' = (False, ''Invalid: Max value is 100'')
   \<and> list_all isspace ''   '' \<and> validate ''   '' = (True, [])
   \<and> list_all isspace [] \<and> validate [] = (True, [])"
proof -
  have s: "str_int 0 = ''0''" "str_int 100 = ''100''" "str_int (- 1) = ''-1''" "str_int 101 = ''101''"
    by code_simp+
  have w: "list_all isspace ''   ''" by (simp add: isspace_def code_def)
  show ?thesis
    using validate_decimal_text [of 0 "''   ''"] validate_decimal_text [of 100 "[]"]
      validate_decimal_text [of "- 1" "[]"] validate_decimal_text [of 101 "[]"] w
    by (simp add: s)
qed

text \<open>
  Claim C7, as stated, fails: the string of a space followed by \<open>5\<close> contains a
  character that is not a digit and is valid, because the input is trimmed first.
\<close>

theorem validate_untrimmed_counterexample:
  "non_digit_content '' 5'' \<and> validate '' 5'' = (True, [])"
  by code_simp

text \<open>
  Claim C7, amended. When the trimmed input has a character that is not a decimal
  digit, a single leading \<open>-\<close> set aside, \<open>validate\<close> returns invalid with the
  message \<open>Invalid: Numbers only\<close>.
\<close>

theorem validate_numbers_only:
  assumes "non_digit_content (strip s)"
  shows "validate s = (False, ''Invalid: Numbers only'')"
proof -
  let ?t = "strip s"
  let ?body = "if startswith_minus ?t then slice_from_1 ?t else ?t"
  from assms have nd: "\<not> list_all isdecimal ?body"
    unfolding non_digit_content_def list_ex_iff list_all_iff by blast
  then have py: "py_int ?t = None"
    by (simp add: py_int_def Let_def)
  from assms have t: "?t \<noteq> []"
    by (auto simp add: non_digit_content_def slice_from_1_def split: if_splits)
  then have "s \<noteq> []"
    by (auto simp add: strip_def)
  with t py show ?thesis
    by (simp add: validate_def Let_def)
qed

theorem validate_numbers_only_witness:
  "non_digit_content (strip '' 12a '') \<and> validate '' 12a '' = (False, ''Invalid: Numbers only'')
   \<and> non_digit_content (strip ''50.5'') \<and> validate ''50.5'' = (False, ''Invalid: Numbers only'')
   \<and> non_digit_content (strip ''--5'') \<and> validate ''--5'' = (False, ''Invalid: Numbers only'')"
proof -
  have a: "non_digit_content (strip '' 12a '')" by code_simp
  have b: "non_digit_content (strip ''50.5'')" by code_simp
  have c: "non_digit_content (strip ''--5'')" by code_simp
  from a b c validate_numbers_only [OF a] validate_numbers_only [OF b] validate_numbers_only [OF c]
  show ?thesis by simp
qed

section \<open>Steps and sequences of calls\<close>

lemma connect_SerialException:
  "connect h (OpenSerialException e) =
     (False, h\<lparr>status := ERROR, error_message := get_error_message h e, serial := None\<rparr>,
      (if status_callback h then [StatusCallback CONNECTING []] else []) @
      [SerialOpen (port h) (baud_rate h) DATA_BITS PARITY_NONE STOP_BITS TIMEOUT] @
      (if status_callback h then [StatusCallback ERROR (get_error_message h e)] else []))"
proof -
  have "get_error_message (h\<lparr>status := CONNECTING, error_message := [], serial := None\<rparr>) e
      = get_error_message h e"
    by (rule get_error_message_port) simp
  then show ?thesis
    by (simp add: connect_def update_status_def Let_def)
qed

lemma connect_Exception:
  "connect h (OpenException e) =
     (False, h\<lparr>status := ERROR, error_message := e, serial := None\<rparr>,
      (if status_callback h then [StatusCallback CONNECTING []] else []) @
      [SerialOpen (port h) (baud_rate h) DATA_BITS PARITY_NONE STOP_BITS TIMEOUT] @
      (if status_callback h then [StatusCallback ERROR e] else []))"
  by (simp add: connect_def update_status_def)

lemmas connect_outcomes = connect_Opened connect_SerialException connect_Exception

lemma retry_unfold:
  "retry h outcome =
     (fst (connect (fst (disconnect h)) outcome),
      fst (snd (connect (fst (disconnect h)) outcome)),
      snd (disconnect h) @ snd (snd (connect (fst (disconnect h)) outcome)))"
  by (simp add: retry_def split: prod.splits)

lemma step_Connect_Opened:
  "step h (Connect (Opened s)) = h\<lparr>status := CONNECTED, error_message := [], serial := Some s\<rparr>"
  by (simp add: connect_Opened)

lemma step_Connect_SerialException:
  "step h (Connect (OpenSerialException e)) =
     h\<lparr>status := ERROR, error_message := get_error_message h e, serial := None\<rparr>"
  by (simp add: connect_SerialException)

lemma step_Connect_Exception:
  "step h (Connect (OpenException e)) = h\<lparr>status := ERROR, error_message := e, serial := None\<rparr>"
  by (simp add: connect_Exception)

lemma step_Disconnect: "step h Disconnect = h\<lparr>serial := None\<rparr>"
  by (simp add: disconnect_def)

lemma step_Retry: "step h (Retry outcome) = step (step h Disconnect) (Connect outcome)"
  by (simp add: retry_unfold)

lemma step_Send: "step h (Send v outcome) = h"
  by (simp add: send_state)

lemmas step_facts = step_Connect_Opened step_Connect_SerialException step_Connect_Exception
  step_Disconnect step_Retry step_Send

lemma run_snoc: "run h (ops @ [op]) = step (run h ops) op"
  by (simp add: run_def)

lemma run_Nil: "run h [] = h"
  by (simp add: run_def)

lemma step_keeps_port: "port (step h op) = port h"
proof (cases op)
  case (Connect outcome)
  then show ?thesis by (cases outcome) (simp_all add: step_facts del: step.simps)
next
  case Disconnect
  then show ?thesis by (simp add: step_facts del: step.simps)
next
  case (Retry outcome)
  then show ?thesis by (cases outcome) (simp_all add: step_facts del: step.simps)
next
  case (Send v outcome)
  then show ?thesis by (simp add: step_facts del: step.simps)
qed

lemma step_connected_status:
  assumes "is_connected h \<longrightarrow> status h = CONNECTED"
  shows "is_connected (step h op) \<longrightarrow> status (step h op) = CONNECTED"
proof (cases op)
  case (Connect outcome)
  then show ?thesis by (cases outcome) (simp_all add: step_facts is_connected_def del: step.simps)
next
  case Disconnect
  then show ?thesis by (simp add: step_facts is_connected_def del: step.simps)
next
  case (Retry outcome)
  then show ?thesis by (cases outcome) (simp_all add: step_facts is_connected_def del: step.simps)
next
  case (Send v outcome)
  with assms show ?thesis by (simp add: step_facts del: step.simps)
qed

lemma step_status_iff:
  assumes "status h = CONNECTED \<longleftrightarrow> is_connected h"
    and "op \<noteq> Disconnect"
    and "case opened_port op of None \<Rightarrow> True | Some s \<Rightarrow> is_open s"
  shows "status (step h op) = CONNECTED \<longleftrightarrow> is_connected (step h op)"
proof (cases op)
  case (Connect outcome)
  with assms(3) show ?thesis by (cases outcome) (simp_all add: step_facts is_connected_def del: step.simps)
next
  case Disconnect
  with assms(2) show ?thesis by simp
next
  case (Retry outcome)
  with assms(3) show ?thesis by (cases outcome) (simp_all add: step_facts is_connected_def del: step.simps)
next
  case (Send v outcome)
  with assms(1) show ?thesis by (simp add: step_facts del: step.simps)
qed

lemma step_message_status:
  assumes "error_message h \<noteq> [] \<longrightarrow> status h = ERROR"
  shows "error_message (step h op) \<noteq> [] \<longrightarrow> status (step h op) = ERROR"
proof (cases op)
  case (Connect outcome)
  then show ?thesis by (cases outcome) (simp_all add: step_facts del: step.simps)
next
  case Disconnect
  with assms show ?thesis by (simp add: step_facts del: step.simps)
next
  case (Retry outcome)
  then show ?thesis by (cases outcome) (simp_all add: step_facts del: step.simps)
next
  case (Send v outcome)
  with assms show ?thesis by (simp add: step_facts del: step.simps)
qed

lemma step_message_iff:
  assumes "error_message h \<noteq> [] \<longleftrightarrow> status h = ERROR"
    and "open_failure_text op \<noteq> Some []"
  shows "error_message (step h op) \<noteq> [] \<longleftrightarrow> status (step h op) = ERROR"
proof (cases op)
  case (Connect outcome)
  with assms(2) show ?thesis
    by (cases outcome) (simp_all add: step_facts get_error_message_nonempty del: step.simps)
next
  case Disconnect
  with assms(1) show ?thesis by (simp add: step_facts del: step.simps)
next
  case (Retry outcome)
  with assms(2) show ?thesis
    by (cases outcome) (simp_all add: step_facts get_error_message_nonempty del: step.simps)
next
  case (Send v outcome)
  with assms(1) show ?thesis by (simp add: step_facts del: step.simps)
qed

lemma run_connected_status:
  "is_connected (run (init p b cb) ops) \<longrightarrow> status (run (init p b cb) ops) = CONNECTED"
proof (induction ops rule: rev_induct)
  case Nil
  show ?case by (simp add: run_Nil init_def is_connected_def)
next
  case (snoc op ops)
  then show ?case unfolding run_snoc by (rule step_connected_status)
qed

lemma run_status_iff:
  "reconnecting_only ops \<Longrightarrow>
   status (run (init p b cb) ops) = CONNECTED \<longleftrightarrow> is_connected (run (init p b cb) ops)"
proof (induction ops rule: rev_induct)
  case Nil
  show ?case by (simp add: run_Nil init_def is_connected_def)
next
  case (snoc op ops)
  from snoc.prems have r: "reconnecting_only ops" and d: "op \<noteq> Disconnect"
    and o: "case opened_port op of None \<Rightarrow> True | Some s \<Rightarrow> is_open s"
    by (simp_all add: reconnecting_only_def)
  from snoc.IH [OF r] d o show ?case unfolding run_snoc by (rule step_status_iff)
qed

lemma run_message_status:
  "error_message (run (init p b cb) ops) \<noteq> [] \<longrightarrow> status (run (init p b cb) ops) = ERROR"
proof (induction ops rule: rev_induct)
  case Nil
  show ?case by (simp add: run_Nil init_def)
next
  case (snoc op ops)
  then show ?case unfolding run_snoc by (rule step_message_status)
qed

lemma run_message_iff:
  "failure_texts_nonempty ops \<Longrightarrow>
   error_message (run (init p b cb) ops) \<noteq> [] \<longleftrightarrow> status (run (init p b cb) ops) = ERROR"
proof (induction ops rule: rev_induct)
  case Nil
  show ?case by (simp add: run_Nil init_def)
next
  case (snoc op ops)
  from snoc.prems have r: "failure_texts_nonempty ops" and t: "open_failure_text op \<noteq> Some []"
    by (simp_all add: failure_texts_nonempty_def)
  from snoc.IH [OF r] t show ?case unfolding run_snoc by (rule step_message_iff)
qed

section \<open>connect, retry and the status\<close>

text \<open>
  Claim C4. With a callback registered, \<open>connect\<close> calls it exactly twice: first with
  \<open>CONNECTING\<close> and the empty message, before the port is opened, and afterwards with
  the final status and message. When the port opens these are \<open>CONNECTED\<close> and the empty
  message, and the result is \<open>True\<close>. When the library raises its own exception they
  are \<open>ERROR\<close> and the classified message, and when it raises any other exception they
  are \<open>ERROR\<close> and the text of that exception; the result is \<open>False\<close> in both cases.
\<close>

theorem connect_notifies_twice:
  assumes "status_callback h"
  shows "snd (snd (connect h outcome)) =
           [StatusCallback CONNECTING [],
            SerialOpen (port h) (baud_rate h) DATA_BITS PARITY_NONE STOP_BITS TIMEOUT,
            StatusCallback (status (fst (snd (connect h outcome))))
              (error_message (fst (snd (connect h outcome))))]
    \<and> length (filter is_callback (snd (snd (connect h outcome)))) = 2
    \<and> (case outcome of
          Opened s \<Rightarrow>
            fst (connect h outcome) \<and> status (fst (snd (connect h outcome))) = CONNECTED
            \<and> error_message (fst (snd (connect h outcome))) = []
        | OpenSerialException e \<Rightarrow>
            \<not> fst (connect h outcome) \<and> status (fst (snd (connect h outcome))) = ERROR
            \<and> error_message (fst (snd (connect h outcome))) = get_error_message h e
        | OpenException e \<Rightarrow>
            \<not> fst (connect h outcome) \<and> status (fst (snd (connect h outcome))) = ERROR
            \<and> error_message (fst (snd (connect h outcome))) = e)"
  using assms by (cases outcome) (simp_all add: connect_outcomes)

theorem connect_notifies_twice_witness:
  "status_callback (init ''COM3'' 57600 True)
   \<and> connect (init ''COM3'' 57600 True) (Opened \<lparr>is_open = True\<rparr>) =
       (True,
        \<lparr>port = ''COM3'', baud_rate = 57600, serial = Some \<lparr>is_open = True\<rparr>, status = CONNECTED,
         error_message = [], status_callback = True\<rparr>,
        [StatusCallback CONNECTING [], SerialOpen ''COM3'' 57600 8 PARITY_NONE 1 2,
         StatusCallback CONNECTED []])
   \<and> snd (snd (connect (init ''COM3'' 57600 True) (OpenSerialException ''Permission denied''))) =
        [StatusCallback CONNECTING [], SerialOpen ''COM3'' 57600 8 PARITY_NONE 1 2,
         StatusCallback ERROR ''Permission denied. Check port access rights'']"
proof -
  let ?h = "init ''COM3'' 57600 True"
  have c: "status_callback ?h" by (simp add: init_def)
  have m: "get_error_message ?h ''Permission denied'' = ''Permission denied. Check port access rights''"
    by code_simp
  have k: "DATA_BITS = 8" "STOP_BITS = 1" "TIMEOUT = 2"
    by (simp_all add: DATA_BITS_def STOP_BITS_def TIMEOUT_def)
  have o: "fst (snd (connect ?h (Opened \<lparr>is_open = True\<rparr>))) =
        \<lparr>port = ''COM3'', baud_rate = 57600, serial = Some \<lparr>is_open = True\<rparr>, status = CONNECTED,
         error_message = [], status_callback = True\<rparr>"
    by (simp add: connect_Opened init_def)
  from connect_notifies_twice [OF c, of "Opened \<lparr>is_open = True\<rparr>"]
  have 1: "connect ?h (Opened \<lparr>is_open = True\<rparr>) =
       (True,
        \<lparr>port = ''COM3'', baud_rate = 57600, serial = Some \<lparr>is_open = True\<rparr>, status = CONNECTED,
         error_message = [], status_callback = True\<rparr>,
        [StatusCallback CONNECTING [], SerialOpen ''COM3'' 57600 8 PARITY_NONE 1 2,
         StatusCallback CONNECTED []])"
    by (simp add: prod_eq_iff o k) (simp add: init_def)
  from connect_notifies_twice [OF c, of "OpenSerialException ''Permission denied''"]
  have 2: "snd (snd (connect ?h (OpenSerialException ''Permission denied''))) =
        [StatusCallback CONNECTING [], SerialOpen ''COM3'' 57600 8 PARITY_NONE 1 2,
         StatusCallback ERROR ''Permission denied. Check port access rights'']"
    by (simp add: m k) (simp add: init_def)
  from c 1 2 show ?thesis by simp
qed

text \<open>
  Claim C5. When the attempt to open raises the library's exception with text \<open>e\<close>,
  the handler ends in \<open>ERROR\<close> with the message chosen by looking for four phrases in
  \<open>e\<close> without regard to case, in this order: \<open>no such file\<close> or \<open>not found\<close> give
  the message naming the port, \<open>permission denied\<close> and \<open>access is denied\<close> give their
  fixed messages, and any other text is passed on as it is.
\<close>

theorem connect_classifies_transport_error:
  "connect h (OpenSerialException e) =
     (False,
      h\<lparr>status := ERROR, error_message := get_error_message h e, serial := None\<rparr>,
      (if status_callback h then [StatusCallback CONNECTING []] else []) @
      [SerialOpen (port h) (baud_rate h) DATA_BITS PARITY_NONE STOP_BITS TIMEOUT] @
      (if status_callback h then [StatusCallback ERROR (get_error_message h e)] else []))
   \<and> get_error_message h e =
       (if contains_ci ''no such file'' e \<or> contains_ci ''not found'' e
          then ''Serial port '' @ port h @ '' not found''
        else if contains_ci ''permission denied'' e
          then ''Permission denied. Check port access rights''
        else if contains_ci ''access is denied'' e
          then ''Port is in use by another application''
        else e)"
proof -
  have "get_error_message h e =
       (if contains_ci ''no such file'' e \<or> contains_ci ''not found'' e
          then ''Serial port '' @ port h @ '' not found''
        else if contains_ci ''permission denied'' e
          then ''Permission denied. Check port access rights''
        else if contains_ci ''access is denied'' e
          then ''Port is in use by another application''
        else e)"
    unfolding get_error_message_def Let_def contains_lower_ci ..
  with connect_SerialException [of h e] show ?thesis by blast
qed

theorem connect_classifies_transport_error_witness:
  "error_message (fst (snd (connect (init ''/dev/ttyUSB2'' 57600 False)
       (OpenSerialException ''could not open port: No such file'')))) = ''Serial port /dev/ttyUSB2 not found''
   \<and> error_message (fst (snd (connect (init ''COM3'' 57600 False)
       (OpenSerialException ''PermissionError(13, 'Access is denied.')'')))) = ''Port is in use by another application''
   \<and> error_message (fst (snd (connect (init ''COM3'' 57600 False)
       (OpenSerialException ''Write timeout'')))) = ''Write timeout''"
proof -
  have a: "contains_ci ''no such file'' ''could not open port: No such file''"
    unfolding contains_lower_ci [symmetric] by code_simp
  have b: "\<not> contains_ci ''no such file'' ''PermissionError(13, 'Access is denied.')''"
    "\<not> contains_ci ''not found'' ''PermissionError(13, 'Access is denied.')''"
    "\<not> contains_ci ''permission denied'' ''PermissionError(13, 'Access is denied.')''"
    "contains_ci ''access is denied'' ''PermissionError(13, 'Access is denied.')''"
    unfolding contains_lower_ci [symmetric] by code_simp+
  have c: "\<not> contains_ci ''no such file'' ''Write timeout''"
    "\<not> contains_ci ''not found'' ''Write timeout''"
    "\<not> contains_ci ''permission denied'' ''Write timeout''"
    "\<not> contains_ci ''access is denied'' ''Write timeout''"
    unfolding contains_lower_ci [symmetric] by code_simp+
  show ?thesis
    using connect_classifies_transport_error [of "init ''/dev/ttyUSB2'' 57600 False" "''could not open port: No such file''"]
      connect_classifies_transport_error [of "init ''COM3'' 57600 False" "''PermissionError(13, 'Access is denied.')''"]
      connect_classifies_transport_error [of "init ''COM3'' 57600 False" "''Write timeout''"]
    by (simp add: a b c) (simp add: init_def)
qed

text \<open>
  Claim C8. \<open>retry\<close> is \<open>disconnect\<close> followed by \<open>connect\<close> on the handler that
  \<open>disconnect\<close> leaves, with the result of that \<open>connect\<close> and the events of both.
  After a \<open>connect\<close> that failed, which leaves the status \<open>ERROR\<close>, a \<open>retry\<close> whose
  attempt to open succeeds returns \<open>True\<close> and leaves the status \<open>CONNECTED\<close>.
\<close>

theorem retry_is_disconnect_then_connect:
  "retry h outcome =
     (fst (connect (fst (disconnect h)) outcome),
      fst (snd (connect (fst (disconnect h)) outcome)),
      snd (disconnect h) @ snd (snd (connect (fst (disconnect h)) outcome)))
   \<and> run h [Retry outcome] = run h [Disconnect, Connect outcome]
   \<and> (let failed = fst (snd (connect h (OpenSerialException e))) in
        \<not> fst (connect h (OpenSerialException e)) \<and> status failed = ERROR
        \<and> fst (retry failed (Opened s))
        \<and> status (fst (snd (retry failed (Opened s)))) = CONNECTED
        \<and> serial (fst (snd (retry failed (Opened s)))) = Some s)
   \<and> (let failed = fst (snd (connect h (OpenException e))) in
        \<not> fst (connect h (OpenException e)) \<and> status failed = ERROR
        \<and> fst (retry failed (Opened s))
        \<and> status (fst (snd (retry failed (Opened s)))) = CONNECTED
        \<and> serial (fst (snd (retry failed (Opened s)))) = Some s)"
proof -
  have 1: "run h [Retry outcome] = run h [Disconnect, Connect outcome]"
    by (simp add: run_def step_Retry del: step.simps)
  have 2: "fst (retry h' (Opened s)) \<and> status (fst (snd (retry h' (Opened s)))) = CONNECTED
      \<and> serial (fst (snd (retry h' (Opened s)))) = Some s" for h'
    by (simp add: retry_unfold connect_Opened)
  show ?thesis
    using 1 2 retry_unfold [of h outcome]
    by (simp add: Let_def connect_SerialException connect_Exception)
qed

theorem retry_is_disconnect_then_connect_witness:
  "retry (fst (snd (connect (init ''COM3'' 57600 False) (OpenSerialException ''Port not found''))))
      (Opened \<lparr>is_open = True\<rparr>) =
     (True,
      \<lparr>port = ''COM3'', baud_rate = 57600, serial = Some \<lparr>is_open = True\<rparr>, status = CONNECTED,
       error_message = [], status_callback = False\<rparr>,
      [SerialOpen ''COM3'' 57600 8 PARITY_NONE 1 2])"
  using retry_is_disconnect_then_connect [of
      "fst (snd (connect (init ''COM3'' 57600 False) (OpenSerialException ''Port not found'')))"
      "Opened \<lparr>is_open = True\<rparr>"]
  by (simp add: connect_outcomes disconnect_def init_def DATA_BITS_def STOP_BITS_def TIMEOUT_def)

section \<open>Invariants of the handler\<close>

text \<open>
  Claim C1, as stated, fails: \<open>disconnect\<close> drops the port object and leaves the status
  alone, so after a successful \<open>connect\<close> and a \<open>disconnect\<close> the status is still
  \<open>CONNECTED\<close> while no port object is held and \<open>is_connected\<close> is false.
\<close>

theorem disconnect_keeps_status_counterexample:
  "status (run (init ''COM3'' 57600 True) [Connect (Opened \<lparr>is_open = True\<rparr>), Disconnect]) = CONNECTED
   \<and> serial (run (init ''COM3'' 57600 True) [Connect (Opened \<lparr>is_open = True\<rparr>), Disconnect]) = None
   \<and> \<not> is_connected (run (init ''COM3'' 57600 True) [Connect (Opened \<lparr>is_open = True\<rparr>), Disconnect])"
  by (simp add: run_def connect_Opened disconnect_def init_def is_connected_def)

text \<open>
  Claim C1, amended. After every sequence of calls from the initial state, a port
  object that is present and open implies the status \<open>CONNECTED\<close>, and \<open>is_connected\<close>
  is true exactly when a port object is present and open. The status is \<open>CONNECTED\<close>
  exactly when \<open>is_connected\<close> is true for the sequences in which \<open>disconnect\<close> is
  never called on its own and every port handed out is open.
\<close>

theorem open_port_implies_connected_status:
  "(is_connected (run (init p b cb) ops) \<longrightarrow> status (run (init p b cb) ops) = CONNECTED)
   \<and> (is_connected (run (init p b cb) ops)
        \<longleftrightarrow> (\<exists>s. serial (run (init p b cb) ops) = Some s \<and> is_open s))
   \<and> (reconnecting_only ops \<longrightarrow>
        (status (run (init p b cb) ops) = CONNECTED \<longleftrightarrow> is_connected (run (init p b cb) ops)))"
proof -
  have "is_connected h \<longleftrightarrow> (\<exists>s. serial h = Some s \<and> is_open s)" for h
    by (cases "serial h") (simp_all add: is_connected_def)
  then show ?thesis
    using run_connected_status [of p b cb ops] run_status_iff [of ops p b cb] by blast
qed

theorem open_port_implies_connected_status_witness:
  "reconnecting_only [Connect (OpenSerialException ''Port not found''),
       Retry (Opened \<lparr>is_open = True\<rparr>), Send 50 (Written 2)]
   \<and> is_connected (run (init ''COM3'' 57600 True) [Connect (OpenSerialException ''Port not found''),
       Retry (Opened \<lparr>is_open = True\<rparr>), Send 50 (Written 2)])
   \<and> status (run (init ''COM3'' 57600 True) [Connect (OpenSerialException ''Port not found''),
       Retry (Opened \<lparr>is_open = True\<rparr>), Send 50 (Written 2)]) = CONNECTED"
proof -
  let ?ops = "[Connect (OpenSerialException ''Port not found''),
       Retry (Opened \<lparr>is_open = True\<rparr>), Send 50 (Written 2)]"
  have r: "reconnecting_only ?ops"
    by (simp add: reconnecting_only_def)
  have c: "is_connected (run (init ''COM3'' 57600 True) ?ops)"
    by (simp add: run_def step_facts is_connected_def del: step.simps)
  from open_port_implies_connected_status [of "''COM3''" 57600 True ?ops] r c
  show ?thesis by blast
qed

text \<open>
  Claim C9, as stated, fails: an exception whose text is empty leaves the status
  \<open>ERROR\<close> with an empty message.
\<close>

theorem empty_error_text_counterexample:
  "status (run (init ''COM3'' 57600 True) [Connect (OpenSerialException [])]) = ERROR
   \<and> error_message (run (init ''COM3'' 57600 True) [Connect (OpenSerialException [])]) = []"
  by code_simp

text \<open>
  Claim C9, amended. After every sequence of calls from the initial state, a
  non-empty error message implies the status \<open>ERROR\<close>; the two are equivalent when no
  failed attempt to open in the sequence carried an empty text.
\<close>

theorem error_message_only_in_error_status:
  "(error_message (run (init p b cb) ops) \<noteq> [] \<longrightarrow> status (run (init p b cb) ops) = ERROR)
   \<and> (failure_texts_nonempty ops \<longrightarrow>
        (error_message (run (init p b cb) ops) \<noteq> [] \<longleftrightarrow> status (run (init p b cb) ops) = ERROR))"
  using run_message_status [of p b cb ops] run_message_iff [of ops p b cb] by blast

theorem error_message_only_in_error_status_witness:
  "failure_texts_nonempty [Connect (OpenSerialException ''Permission denied''), Send 50 (Written 2), Disconnect]
   \<and> status (run (init ''COM3'' 57600 True)
        [Connect (OpenSerialException ''Permission denied''), Send 50 (Written 2), Disconnect]) = ERROR
   \<and> error_message (run (init ''COM3'' 57600 True)
        [Connect (OpenSerialException ''Permission denied''), Send 50 (Written 2), Disconnect]) \<noteq> []"
proof -
  let ?ops = "[Connect (OpenSerialException ''Permission denied''), Send 50 (Written 2), Disconnect]"
  have f: "failure_texts_nonempty ?ops"
    by (simp add: failure_texts_nonempty_def)
  have s: "status (run (init ''COM3'' 57600 True) ?ops) = ERROR"
    by (simp add: run_def step_facts del: step.simps)
  from error_message_only_in_error_status [of "''COM3''" 57600 True ?ops] f s
  show ?thesis by blast
qed

end
